theory Spec2Isabelle
  imports Complex_Main "HOL-Library.Code_Target_Numeral"
begin

section \<open>Strings\<close>

text \<open>
  A Python \<open>str\<close> is modelled as a \<open>string\<close>; one \<open>char\<close> stands for one character of
  the text. \<open>str.upper\<close> is modelled on the letters \<open>a\<close> to \<open>z\<close>; every other character
  is left as it is.
\<close>

definition upper_char :: "char \<Rightarrow> char" where
  "upper_char c =
     (case map_of (zip ''abcdefghijklmnopqrstuvwxyz'' ''ABCDEFGHIJKLMNOPQRSTUVWXYZ'') c of
        None \<Rightarrow> c | Some u \<Rightarrow> u)"

definition upper :: "string \<Rightarrow> string" where
  "upper s = map upper_char s"

section \<open>The user store\<close>

text \<open>
  The SQLite file \<open>financial_bot.db\<close> as \<open>init_database\<close> creates it. A table is the
  list of its rows in rowid order, which is the order in which a full scan visits them.
  \<open>CURRENT_TIMESTAMP\<close> is the clock reading handed to each statement. The table
  \<open>alerts\<close> is created and never read or written.
\<close>

type_synonym timestamp = nat

record user_row =
  u_user_id :: int
  u_username :: string
  u_first_name :: string
  u_created_at :: timestamp

record watch_row =
  w_id :: nat
  w_user_id :: int
  w_ticker :: string
  w_added_at :: timestamp

record database =
  users :: "user_row list"
  watchlist :: "watch_row list"
  watchlist_seq :: nat

definition init_database :: database where
  "init_database = \<lparr>users = [], watchlist = [], watchlist_seq = 0\<rparr>"

datatype sql_error = IntegrityError

datatype on_conflict = Abort | Replace

text \<open>
  \<open>INSERT [OR REPLACE] INTO users\<close>: \<open>user_id\<close> is the primary key. On a row with the
  same key the default conflict handling aborts the statement; \<open>OR REPLACE\<close> deletes the
  row in the way and then inserts the new one.
\<close>

definition insert_users :: "on_conflict \<Rightarrow> user_row \<Rightarrow> user_row list \<Rightarrow> sql_error + user_row list" where
  "insert_users oc r t =
     (if u_user_id r \<in> set (map u_user_id t)
      then (case oc of
              Abort \<Rightarrow> Inl IntegrityError
            | Replace \<Rightarrow> Inr (filter (\<lambda>x. u_user_id x \<noteq> u_user_id r) t @ [r]))
      else Inr (t @ [r]))"

definition save_user :: "timestamp \<Rightarrow> int \<Rightarrow> string \<Rightarrow> string \<Rightarrow> database \<Rightarrow> sql_error + database" where
  "save_user now uid uname fname db =
     (case insert_users Replace
             \<lparr>u_user_id = uid, u_username = uname, u_first_name = fname, u_created_at = now\<rparr>
             (users db) of
        Inl e \<Rightarrow> Inl e
      | Inr t \<Rightarrow> Inr (db\<lparr>users := t\<rparr>))"

text \<open>
  \<open>INSERT INTO watchlist (user_id, ticker)\<close>: the id is \<open>AUTOINCREMENT\<close>, one more than
  the largest id ever given out, so the new row is the last one of the table. No
  constraint of the table can reject the row.
\<close>

definition add_to_watchlist :: "timestamp \<Rightarrow> int \<Rightarrow> string \<Rightarrow> database \<Rightarrow> database" where
  "add_to_watchlist now uid ticker db =
     db\<lparr>watchlist := watchlist db @
            [\<lparr>w_id = Suc (watchlist_seq db), w_user_id = uid, w_ticker = upper ticker,
              w_added_at = now\<rparr>],
        watchlist_seq := Suc (watchlist_seq db)\<rparr>"

text \<open>\<open>SELECT ticker FROM watchlist WHERE user_id = ?\<close>, then the list of the first columns.\<close>

definition get_watchlist :: "int \<Rightarrow> database \<Rightarrow> string list" where
  "get_watchlist uid db = map w_ticker (filter (\<lambda>r. w_user_id r = uid) (watchlist db))"

text \<open>A sequence of \<open>add_to_watchlist\<close> calls, each with its clock reading, user and ticker.\<close>

fun add_all :: "(timestamp \<times> int \<times> string) list \<Rightarrow> database \<Rightarrow> database" where
  "add_all [] db = db"
| "add_all ((now, uid, ticker) # cs) db = add_all cs (add_to_watchlist now uid ticker db)"

definition tickers_of :: "int \<Rightarrow> (timestamp \<times> int \<times> string) list \<Rightarrow> string list" where
  "tickers_of uid cs = map (\<lambda>c. upper (snd (snd c))) (filter (\<lambda>c. fst (snd c) = uid) cs)"

section \<open>Python values and errors\<close>

text \<open>
  An exception is a value: a computation that can raise returns \<open>py_error + 'a\<close>, with
  \<open>Inl\<close> for the exception raised. \<open>seq\<close> runs the next statement on the value of the one
  before, and stops at the first exception.
\<close>

datatype py_error =
  ValueError | TypeError | AttributeError | KeyError | IndexError | ZeroDivisionError
  | OverflowError | ClientError | ContentTypeError

definition seq :: "py_error + 'a \<Rightarrow> ('a \<Rightarrow> py_error + 'b) \<Rightarrow> py_error + 'b" where
  "seq m f = (case m of Inl e \<Rightarrow> Inl e | Inr x \<Rightarrow> f x)"

definition py_index :: "'a list \<Rightarrow> nat \<Rightarrow> py_error + 'a" where
  "py_index xs i = (if i < length xs then Inr (xs ! i) else Inl IndexError)"

section \<open>Floats\<close>

text \<open>
  A Python \<open>float\<close> is an IEEE 754 binary64 number: a finite number \<open>Fin r\<close> (with
  \<open>Fin 0\<close> for \<open>0.0\<close>), the negative zero, the two infinities or \<open>nan\<close>. The finite
  numbers are the multiples of \<open>2^(e - 52)\<close> between \<open>2^e\<close> and \<open>2^(e + 1)\<close> for
  \<open>e\<close> from \<open>-1022\<close> to \<open>1023\<close>, and the multiples of \<open>2^(-1074)\<close> below
  \<open>2^(-1022)\<close>. \<open>rnd x\<close> is the float that the real number \<open>x\<close> rounds to: the nearest
  one, the one with the even last digit when two are equally near, an infinity when
  the nearest one would be \<open>2^1024\<close> or beyond, and a zero with the sign of \<open>x\<close> when
  \<open>x\<close> is too small.
\<close>

datatype pyfloat = Fin real | NegZero | PInf | NInf | NaN

definition pow2 :: "int \<Rightarrow> real" where
  "pow2 e = (if 0 \<le> e then 2 ^ nat e else 1 / 2 ^ nat (- e))"

definition pow10 :: "int \<Rightarrow> real" where
  "pow10 e = (if 0 \<le> e then 10 ^ nat e else 1 / 10 ^ nat (- e))"

text \<open>The number of binary digits of a natural number.\<close>

fun bit_length :: "nat \<Rightarrow> nat" where
  "bit_length n = (if n = 0 then 0 else Suc (bit_length (n div 2)))"

declare bit_length.simps [simp del]

text \<open>For \<open>x\<close> other than zero, the \<open>e\<close> with \<open>2^e \<le> \<bar>x\<bar> < 2^(e + 1)\<close>.\<close>

definition exponent :: "real \<Rightarrow> int" where
  "exponent x =
     (if 1 \<le> \<bar>x\<bar> then int (bit_length (nat \<lfloor>\<bar>x\<bar>\<rfloor>)) - 1
      else - int (bit_length (nat (\<lceil>1 / \<bar>x\<bar>\<rceil> - 1))))"

definition round_half_even :: "real \<Rightarrow> int" where
  "round_half_even x =
     (let n = \<lfloor>x\<rfloor>; d = x - of_int n
      in if d < 1 / 2 then n else if 1 / 2 < d then n + 1 else if even n then n else n + 1)"

definition nearest :: "real \<Rightarrow> real" where
  "nearest x =
     (let e = (if \<bar>x\<bar> < pow2 (- 1022) then - 1074 else exponent x - 52)
      in of_int (round_half_even (x / pow2 e)) * pow2 e)"

definition rnd :: "real \<Rightarrow> pyfloat" where
  "rnd x =
     (if pow2 1024 \<le> \<bar>x\<bar> \<or> pow2 1024 \<le> \<bar>nearest x\<bar> then (if 0 < x then PInf else NInf)
      else if nearest x = 0 then (if x < 0 then NegZero else Fin 0)
      else Fin (nearest x))"

definition is_zero :: "pyfloat \<Rightarrow> bool" where
  "is_zero a = (a = Fin 0 \<or> a = NegZero)"

definition is_inf :: "pyfloat \<Rightarrow> bool" where
  "is_inf a = (a = PInf \<or> a = NInf)"

fun negative :: "pyfloat \<Rightarrow> bool" where
  "negative (Fin r) = (r < 0)"
| "negative NegZero = True"
| "negative PInf = False"
| "negative NInf = True"
| "negative NaN = False"

fun real_of :: "pyfloat \<Rightarrow> real" where
  "real_of (Fin r) = r"
| "real_of a = 0"

definition signed_zero :: "bool \<Rightarrow> pyfloat" where
  "signed_zero neg = (if neg then NegZero else Fin 0)"

definition signed_inf :: "bool \<Rightarrow> pyfloat" where
  "signed_inf neg = (if neg then NInf else PInf)"

text \<open>
  \<open>a * b\<close>, \<open>a - b\<close> and \<open>a / b\<close> on two floats, and \<open>a > 0\<close>. The division raises
  when the divisor is a zero, whatever the dividend is.
\<close>

definition float_mul :: "pyfloat \<Rightarrow> pyfloat \<Rightarrow> pyfloat" where
  "float_mul a b =
     (if a = NaN \<or> b = NaN then NaN
      else if is_inf a \<or> is_inf b
      then (if is_zero a \<or> is_zero b then NaN else signed_inf (negative a \<noteq> negative b))
      else if is_zero a \<or> is_zero b then signed_zero (negative a \<noteq> negative b)
      else rnd (real_of a * real_of b))"

definition float_sub :: "pyfloat \<Rightarrow> pyfloat \<Rightarrow> pyfloat" where
  "float_sub a b =
     (if a = NaN \<or> b = NaN then NaN
      else if is_inf a then (if b = a then NaN else a)
      else if is_inf b then signed_inf (\<not> negative b)
      else if real_of a = real_of b then (if a = NegZero \<and> b = Fin 0 then NegZero else Fin 0)
      else rnd (real_of a - real_of b))"

definition float_div :: "pyfloat \<Rightarrow> pyfloat \<Rightarrow> pyfloat" where
  "float_div a b =
     (if a = NaN \<or> b = NaN then NaN
      else if is_inf a then (if is_inf b then NaN else signed_inf (negative a \<noteq> negative b))
      else if is_inf b \<or> is_zero a then signed_zero (negative a \<noteq> negative b)
      else rnd (real_of a / real_of b))"

definition py_truediv :: "pyfloat \<Rightarrow> pyfloat \<Rightarrow> py_error + pyfloat" where
  "py_truediv a b = (if is_zero b then Inl ZeroDivisionError else Inr (float_div a b))"

definition float_pos :: "pyfloat \<Rightarrow> bool" where
  "float_pos a = (a = PInf \<or> 0 < real_of a)"

text \<open>
  \<open>float(i)\<close> on an integer, which is also what \<open>i * a\<close> and \<open>a * i\<close> do to \<open>i\<close>
  first: the integer is rounded, and one too large for a float raises. \<open>int(a)\<close> on a
  float cuts the fraction off.
\<close>

definition float_of_int :: "int \<Rightarrow> py_error + pyfloat" where
  "float_of_int i =
     (case rnd (of_int i) of
        PInf \<Rightarrow> Inl OverflowError
      | NInf \<Rightarrow> Inl OverflowError
      | a \<Rightarrow> Inr a)"

definition int_mul_float :: "int \<Rightarrow> pyfloat \<Rightarrow> py_error + pyfloat" where
  "int_mul_float i a = seq (float_of_int i) (\<lambda>x. Inr (float_mul x a))"

definition float_mul_int :: "pyfloat \<Rightarrow> int \<Rightarrow> py_error + pyfloat" where
  "float_mul_int a i = seq (float_of_int i) (\<lambda>x. Inr (float_mul a x))"

fun int_of_float :: "pyfloat \<Rightarrow> py_error + int" where
  "int_of_float (Fin r) = Inr (if 0 \<le> r then \<lfloor>r\<rfloor> else \<lceil>r\<rceil>)"
| "int_of_float NegZero = Inr 0"
| "int_of_float PInf = Inl OverflowError"
| "int_of_float NInf = Inl OverflowError"
| "int_of_float NaN = Inl ValueError"

section \<open>Text\<close>

text \<open>\<open>s.split(sep)\<close> for a separator of one character: empty pieces are kept.\<close>

fun split_on :: "char \<Rightarrow> string \<Rightarrow> string list" where
  "split_on sep [] = [[]]"
| "split_on sep (c # cs) =
     (if c = sep then [] # split_on sep cs
      else (case split_on sep cs of [] \<Rightarrow> [[c]] | w # ws \<Rightarrow> (c # w) # ws))"

text \<open>
  \<open>s.strip()\<close> and \<open>s.split()\<close>: the white space among the characters of the model
  (space, tab, line feed, vertical tab, form feed, carriage return, the four separators
  \<open>0x1C\<close> to \<open>0x1F\<close>, next line \<open>0x85\<close> and the no-break space \<open>0xA0\<close>). \<open>split_acc\<close>
  carries the piece being read, reversed.
\<close>

definition is_space :: "char \<Rightarrow> bool" where
  "is_space c =
     (c \<in> set [CHR '' '', CHR 0x09, CHR 0x0A, CHR 0x0B, CHR 0x0C, CHR 0x0D,
               CHR 0x1C, CHR 0x1D, CHR 0x1E, CHR 0x1F, CHR 0x85, CHR 0xA0])"

definition strip :: "string \<Rightarrow> string" where
  "strip s = rev (dropWhile is_space (rev (dropWhile is_space s)))"

fun split_acc :: "string \<Rightarrow> string \<Rightarrow> string list" where
  "split_acc w [] = (if w = [] then [] else [rev w])"
| "split_acc w (c # cs) =
     (if is_space c then (if w = [] then split_acc [] cs else rev w # split_acc [] cs)
      else split_acc (c # w) cs)"

definition py_split :: "string \<Rightarrow> string list" where
  "py_split s = split_acc [] s"

text \<open>
  \<open>int(s)\<close> and \<open>float(s)\<close> on a string of the model. Both drop the white space around
  the number, which for them does not include the separators \<open>0x1C\<close> to \<open>0x1F\<close>, and
  both allow one underscore between two digits. \<open>int\<close> reads an optional sign and
  decimal digits. \<open>float\<close> reads an optional sign and then \<open>inf\<close>, \<open>infinity\<close> or
  \<open>nan\<close> in any case, or digits with an optional point and an optional exponent, and
  rounds the number written to the nearest float. The decimal digits of other scripts,
  which Python reads as well, are not characters of the model, and the limit that newer
  versions of Python put on the number of digits of an integer is left out.
\<close>

definition digit_val :: "char \<Rightarrow> nat option" where
  "digit_val c = map_of (zip ''0123456789'' [0, 1, 2, 3, 4, 5, 6, 7, 8, 9]) c"

definition is_digit :: "char \<Rightarrow> bool" where
  "is_digit c = (digit_val c \<noteq> None)"

fun digits_val :: "nat \<Rightarrow> string \<Rightarrow> nat option" where
  "digits_val acc [] = Some acc"
| "digits_val acc (c # cs) =
     (case digit_val c of None \<Rightarrow> None | Some d \<Rightarrow> digits_val (10 * acc + d) cs)"

definition unsign :: "string \<Rightarrow> bool \<times> string" where
  "unsign s =
     (case s of
        [] \<Rightarrow> (False, [])
      | c # cs \<Rightarrow> if c = CHR ''-'' then (True, cs) else if c = CHR ''+'' then (False, cs)
                  else (False, s))"

definition is_num_space :: "char \<Rightarrow> bool" where
  "is_num_space c =
     (c \<in> set [CHR '' '', CHR 0x09, CHR 0x0A, CHR 0x0B, CHR 0x0C, CHR 0x0D, CHR 0x85, CHR 0xA0])"

definition num_strip :: "string \<Rightarrow> string" where
  "num_strip s = rev (dropWhile is_num_space (rev (dropWhile is_num_space s)))"

text \<open>
  The text without its underscores, when each of them stands after a digit and before a
  digit; the first argument is the character before the text read.
\<close>

fun drop_underscores :: "char \<Rightarrow> string \<Rightarrow> string option" where
  "drop_underscores prev [] = (if prev = CHR ''_'' then None else Some [])"
| "drop_underscores prev (c # cs) =
     (if c = CHR ''_'' then (if is_digit prev then drop_underscores c cs else None)
      else if prev = CHR ''_'' \<and> \<not> is_digit c then None
      else map_option ((#) c) (drop_underscores c cs))"

definition int_of_str :: "string \<Rightarrow> py_error + int" where
  "int_of_str s =
     (case unsign (num_strip s) of
        (neg, body) \<Rightarrow>
          (case drop_underscores CHR 0x00 body of
             None \<Rightarrow> Inl ValueError
           | Some ds \<Rightarrow>
               if ds = [] then Inl ValueError
               else (case digits_val 0 ds of
                       None \<Rightarrow> Inl ValueError
                     | Some n \<Rightarrow> Inr (if neg then - int n else int n))))"

text \<open>The exponent after the digits of a float: nothing, or \<open>e\<close> with a signed integer.\<close>

definition exponent_part :: "string \<Rightarrow> int option" where
  "exponent_part s =
     (case s of
        [] \<Rightarrow> Some 0
      | c # cs \<Rightarrow>
          if c = CHR ''e'' \<or> c = CHR ''E''
          then (case unsign cs of
                  (neg, ds) \<Rightarrow>
                    if ds = [] then None
                    else (case digits_val 0 ds of
                            None \<Rightarrow> None
                          | Some n \<Rightarrow> Some (if neg then - int n else int n)))
          else None)"

text \<open>The number an unsigned decimal text writes: digits, point, digits, exponent.\<close>

definition decimal :: "string \<Rightarrow> real option" where
  "decimal s =
     (let ip = takeWhile is_digit s;
          r = dropWhile is_digit s;
          point = (r \<noteq> [] \<and> hd r = CHR ''.'');
          fp = (if point then takeWhile is_digit (tl r) else []);
          rest = (if point then dropWhile is_digit (tl r) else r)
      in if ip = [] \<and> fp = [] then None
         else (case digits_val 0 (ip @ fp) of
                 None \<Rightarrow> None
               | Some m \<Rightarrow>
                   (case exponent_part rest of
                      None \<Rightarrow> None
                    | Some e \<Rightarrow> Some (real m * pow10 (e - int (length fp))))))"

definition float_of_str :: "string \<Rightarrow> py_error + pyfloat" where
  "float_of_str s =
     (case drop_underscores CHR 0x00 (num_strip s) of
        None \<Rightarrow> Inl ValueError
      | Some t \<Rightarrow>
          (case unsign t of
             (neg, body) \<Rightarrow>
               if upper body = ''INF'' \<or> upper body = ''INFINITY'' then Inr (signed_inf neg)
               else if upper body = ''NAN'' then Inr NaN
               else (case decimal body of
                       None \<Rightarrow> Inl ValueError
                     | Some x \<Rightarrow>
                         Inr (if x = 0 then signed_zero neg
                              else rnd (if neg then - x else x)))))"

text \<open>
  What \<open>response.json()\<close> returns: a JSON value as Python holds it. An object is the
  list of the items of the \<open>dict\<close>, looked up with \<open>map_of\<close>.
\<close>

datatype json =
  JNull | JBool bool | JInt int | JFloat pyfloat | JStr string
  | JArr "json list" | JObj "(string \<times> json) list"

fun py_float :: "json \<Rightarrow> py_error + pyfloat" where
  "py_float (JBool b) = Inr (Fin (if b then 1 else 0))"
| "py_float (JInt i) = float_of_int i"
| "py_float (JFloat a) = Inr a"
| "py_float (JStr s) = float_of_str s"
| "py_float JNull = Inl TypeError"
| "py_float (JArr xs) = Inl TypeError"
| "py_float (JObj d) = Inl TypeError"

fun py_int :: "json \<Rightarrow> py_error + int" where
  "py_int (JBool b) = Inr (if b then 1 else 0)"
| "py_int (JInt i) = Inr i"
| "py_int (JFloat a) = int_of_float a"
| "py_int (JStr s) = int_of_str s"
| "py_int JNull = Inl TypeError"
| "py_int (JArr xs) = Inl TypeError"
| "py_int (JObj d) = Inl TypeError"

text \<open>\<open>sub in s\<close> on two strings.\<close>

fun contains :: "string \<Rightarrow> string \<Rightarrow> bool" where
  "contains sub [] = (sub = [])"
| "contains sub (c # cs) = (take (length sub) (c # cs) = sub \<or> contains sub cs)"

text \<open>\<open>key in data\<close>, \<open>data[key]\<close> and \<open>data.get(key, default)\<close> for a string key.\<close>

fun py_in :: "string \<Rightarrow> json \<Rightarrow> py_error + bool" where
  "py_in k (JObj d) = Inr (map_of d k \<noteq> None)"
| "py_in k (JArr xs) = Inr (JStr k \<in> set xs)"
| "py_in k (JStr s) = Inr (contains k s)"
| "py_in k JNull = Inl TypeError"
| "py_in k (JBool b) = Inl TypeError"
| "py_in k (JInt i) = Inl TypeError"
| "py_in k (JFloat r) = Inl TypeError"

fun py_getitem :: "json \<Rightarrow> string \<Rightarrow> py_error + json" where
  "py_getitem (JObj d) k = (case map_of d k of None \<Rightarrow> Inl KeyError | Some v \<Rightarrow> Inr v)"
| "py_getitem j k = Inl TypeError"

fun py_get :: "json \<Rightarrow> string \<Rightarrow> json \<Rightarrow> py_error + json" where
  "py_get (JObj d) k dflt = Inr (case map_of d k of None \<Rightarrow> dflt | Some v \<Rightarrow> v)"
| "py_get j k dflt = Inl AttributeError"

text \<open>\<open>v[:n]\<close>: a string and a list can be sliced.\<close>

fun py_slice :: "nat \<Rightarrow> json \<Rightarrow> py_error + json" where
  "py_slice n (JStr s) = Inr (JStr (take n s))"
| "py_slice n (JArr xs) = Inr (JArr (take n xs))"
| "py_slice n j = Inl TypeError"

section \<open>The quote client\<close>

text \<open>
  One request to the provider ends in one of three ways: the transport fails, the body
  is not JSON, or the body is a JSON value.
\<close>

datatype provider_response = TransportError | MalformedJSON | Body json

record quote =
  q_symbol :: json
  q_price :: pyfloat
  q_change :: pyfloat
  q_change_percent :: json
  q_volume :: int
  q_high :: pyfloat
  q_low :: pyfloat
  q_open :: pyfloat
  q_previous_close :: pyfloat

text \<open>
  The dictionary \<open>get_stock_data\<close> builds from the object under \<open>Global Quote\<close>, entry
  by entry in the order of the source.
\<close>

definition quote_of :: "json \<Rightarrow> py_error + quote" where
  "quote_of quote =
     seq (py_get quote ''01. symbol'' (JStr [])) (\<lambda>symbol.
     seq (seq (py_get quote ''05. price'' (JInt 0)) py_float) (\<lambda>price.
     seq (seq (py_get quote ''09. change'' (JInt 0)) py_float) (\<lambda>change.
     seq (py_get quote ''10. change percent'' (JStr ''0%'')) (\<lambda>change_percent.
     seq (seq (py_get quote ''06. volume'' (JInt 0)) py_int) (\<lambda>volume.
     seq (seq (py_get quote ''03. high'' (JInt 0)) py_float) (\<lambda>high.
     seq (seq (py_get quote ''04. low'' (JInt 0)) py_float) (\<lambda>low.
     seq (seq (py_get quote ''02. open'' (JInt 0)) py_float) (\<lambda>opn.
     seq (seq (py_get quote ''08. previous close'' (JInt 0)) py_float) (\<lambda>previous_close.
     Inr \<lparr>q_symbol = symbol, q_price = price, q_change = change,
          q_change_percent = change_percent, q_volume = volume, q_high = high,
          q_low = low, q_open = opn, q_previous_close = previous_close\<rparr>)))))))))"

text \<open>The body of the \<open>try\<close> of \<open>get_stock_data\<close>, on the outcome of its request.\<close>

definition get_stock_data_try :: "provider_response \<Rightarrow> py_error + quote option" where
  "get_stock_data_try resp =
     (case resp of
        TransportError \<Rightarrow> Inl ClientError
      | MalformedJSON \<Rightarrow> Inl ContentTypeError
      | Body data \<Rightarrow>
          seq (py_in ''Global Quote'' data) (\<lambda>found.
          if found
          then seq (py_getitem data ''Global Quote'') (\<lambda>quote.
               seq (quote_of quote) (\<lambda>q. Inr (Some q)))
          else Inr None))"

text \<open>
  \<open>get_stock_data\<close>: \<open>except Exception\<close> turns every exception of the body into
  \<open>None\<close>; a body that ends without \<open>return\<close> gives \<open>None\<close> as well. The first
  argument is the provider: what it answers to the request for a symbol.
\<close>

definition get_stock_data :: "(string \<Rightarrow> provider_response) \<Rightarrow> string \<Rightarrow> quote option" where
  "get_stock_data api ticker =
     (case get_stock_data_try (api ticker) of Inl e \<Rightarrow> None | Inr r \<Rightarrow> r)"

definition get_company_overview_try :: "provider_response \<Rightarrow> py_error + json option" where
  "get_company_overview_try resp =
     (case resp of
        TransportError \<Rightarrow> Inl ClientError
      | MalformedJSON \<Rightarrow> Inl ContentTypeError
      | Body data \<Rightarrow>
          seq (py_in ''Symbol'' data) (\<lambda>found. if found then Inr (Some data) else Inr None))"

definition get_company_overview :: "(string \<Rightarrow> provider_response) \<Rightarrow> string \<Rightarrow> json option" where
  "get_company_overview api ticker =
     (case get_company_overview_try (api ticker) of Inl e \<Rightarrow> None | Inr r \<Rightarrow> r)"

section \<open>Messages\<close>

text \<open>
  A message the bot sends is kept as the template it is written from, together with the
  values the template is filled with: the fixed wording, and the formatting of a number
  to two decimals, are not part of the model. The chat transport is outside the model:
  a message handed to it counts as sent. \<open>Shown v\<close> is the text an f-string puts for
  the value \<open>v\<close>, which for a string is the string itself; \<open>Literal s\<close> is the text \<open>s\<close>
  of the template.
\<close>

datatype emoji = ChartUp | ChartDown

datatype piece = Shown json | Literal string

record calc_text =
  c_ticker :: string
  c_current_price :: pyfloat
  c_shares :: int
  c_buy_price :: pyfloat
  c_total_invested :: pyfloat
  c_current_value :: pyfloat
  c_profit_loss :: pyfloat
  c_profit_percent :: pyfloat
  c_profit_emoji :: emoji

datatype watch_line = Priced emoji string pyfloat json | Unavailable string

record overview_text =
  o_symbol :: json
  o_name :: json
  o_sector :: json
  o_industry :: json
  o_country :: json
  o_market_capitalization :: json
  o_pe_ratio :: json
  o_eps :: json
  o_dividend_yield :: json
  o_week52_high :: json
  o_week52_low :: json
  o_description :: "piece list"

text \<open>
  \<open>Analysis\<close> carries the direction sign, the quote and the \<open>callback_data\<close> of the two
  buttons under the message. The colour mark of the text follows the same test as the
  direction sign, and the clock reading at the end of the text is left out.
\<close>

datatype reply =
    Searching
  | StockNotFound string
  | Analysis emoji quote "string list"
  | CalcNotFound
  | CalcResult calc_text
  | CalcFormatError
  | WatchlistEmpty
  | WatchlistText "watch_line list"
  | OverviewLoading
  | OverviewNotFound string
  | Overview overview_text
  | WatchlistAdded string

section \<open>The conversation controller\<close>

text \<open>
  The states of \<open>UserStates\<close>. The storage of the dispatcher maps a user to the state
  the user is in; \<open>None\<close> is the state of a user who is not in a dialogue (idle), and
  \<open>state.clear()\<close> sets it.
\<close>

datatype user_state = waiting_for_ticker | setting_alert | calculator_input

type_synonym storage = "int \<Rightarrow> user_state option"

definition set_state :: "int \<Rightarrow> user_state \<Rightarrow> storage \<Rightarrow> storage" where
  "set_state uid st fsm = fsm(uid := Some st)"

definition clear :: "int \<Rightarrow> storage \<Rightarrow> storage" where
  "clear uid fsm = fsm(uid := None)"

definition change_emoji :: "pyfloat \<Rightarrow> emoji" where
  "change_emoji x = (if float_pos x then ChartUp else ChartDown)"

text \<open>The \<open>callback_data\<close> of the button that adds the shown ticker to the watch list.\<close>

definition add_watchlist_data :: "string \<Rightarrow> string" where
  "add_watchlist_data ticker = ''add_watchlist_'' @ ticker"

definition overview_button_data :: "string \<Rightarrow> string" where
  "overview_button_data ticker = ''overview_'' @ ticker"

definition send_stock_analysis :: "(string \<Rightarrow> provider_response) \<Rightarrow> string \<Rightarrow> reply list" where
  "send_stock_analysis api ticker =
     Searching #
     (case get_stock_data api ticker of
        None \<Rightarrow> [StockNotFound ticker]
      | Some stock_data \<Rightarrow>
          [Analysis (change_emoji (q_change stock_data)) stock_data
             [add_watchlist_data ticker, overview_button_data ticker]])"

text \<open>
  \<open>add_watchlist_callback\<close>: the ticker is the third piece of the \<open>callback_data\<close>
  split at the underscores.
\<close>

definition callback_ticker :: "string \<Rightarrow> py_error + string" where
  "callback_ticker data = py_index (split_on CHR ''_'' data) 2"

definition add_watchlist_callback ::
  "timestamp \<Rightarrow> int \<Rightarrow> string \<Rightarrow> database \<Rightarrow> py_error + (reply \<times> database)" where
  "add_watchlist_callback now uid data db =
     seq (callback_ticker data) (\<lambda>ticker.
     Inr (WatchlistAdded ticker, add_to_watchlist now uid ticker db))"

text \<open>
  \<open>send_company_overview\<close>: the messages sent, and the exception that ends the function
  if one is raised while the text is put together. A value \<open>get_company_overview\<close>
  returns holds \<open>Symbol\<close>, so it is not empty and passes the test
  \<open>if not overview_data\<close>; the dictionary \<open>get_stock_data\<close> returns has nine keys and
  passes \<open>if not stock_data\<close> in the same way. The default of the description is a
  fixed text of the source, written here in ASCII.
\<close>

definition overview_text_of :: "json \<Rightarrow> string \<Rightarrow> py_error + overview_text" where
  "overview_text_of overview_data ticker =
     seq (py_get overview_data ''Symbol'' (JStr ticker)) (\<lambda>symbol.
     seq (py_get overview_data ''Name'' (JStr ''N/A'')) (\<lambda>name.
     seq (py_get overview_data ''Sector'' (JStr ''N/A'')) (\<lambda>sector.
     seq (py_get overview_data ''Industry'' (JStr ''N/A'')) (\<lambda>industry.
     seq (py_get overview_data ''Country'' (JStr ''N/A'')) (\<lambda>country.
     seq (py_get overview_data ''MarketCapitalization'' (JStr ''N/A'')) (\<lambda>cap.
     seq (py_get overview_data ''PERatio'' (JStr ''N/A'')) (\<lambda>pe.
     seq (py_get overview_data ''EPS'' (JStr ''N/A'')) (\<lambda>eps.
     seq (py_get overview_data ''DividendYield'' (JStr ''N/A'')) (\<lambda>dividend.
     seq (py_get overview_data ''52WeekHigh'' (JStr ''N/A'')) (\<lambda>hi.
     seq (py_get overview_data ''52WeekLow'' (JStr ''N/A'')) (\<lambda>lo.
     seq (seq (py_get overview_data ''Description'' (JStr ''(no description)''))
            (py_slice 500)) (\<lambda>description.
     Inr \<lparr>o_symbol = symbol, o_name = name, o_sector = sector, o_industry = industry,
          o_country = country, o_market_capitalization = cap, o_pe_ratio = pe, o_eps = eps,
          o_dividend_yield = dividend, o_week52_high = hi, o_week52_low = lo,
          o_description = [Shown description, Literal ''...'']\<rparr>))))))))))))"

definition send_company_overview ::
  "(string \<Rightarrow> provider_response) \<Rightarrow> string \<Rightarrow> reply list \<times> py_error option" where
  "send_company_overview api ticker =
     (case get_company_overview api ticker of
        None \<Rightarrow> ([OverviewLoading, OverviewNotFound ticker], None)
      | Some overview_data \<Rightarrow>
          (case overview_text_of overview_data ticker of
             Inl e \<Rightarrow> ([OverviewLoading], Some e)
           | Inr t \<Rightarrow> ([OverviewLoading, Overview t], None)))"

text \<open>
  \<open>watchlist_command\<close>: one request per ticker of the list. The provider may answer
  each request of the loop differently: \<open>apis i\<close> is the provider at the \<open>i\<close>-th request.
\<close>

definition watch_line :: "string \<Rightarrow> quote option \<Rightarrow> watch_line" where
  "watch_line ticker stock_data =
     (case stock_data of
        Some sd \<Rightarrow> Priced (change_emoji (q_change sd)) ticker (q_price sd) (q_change_percent sd)
      | None \<Rightarrow> Unavailable ticker)"

fun watch_lines :: "(nat \<Rightarrow> string \<Rightarrow> provider_response) \<Rightarrow> nat \<Rightarrow> string list \<Rightarrow> watch_line list" where
  "watch_lines apis i [] = []"
| "watch_lines apis i (ticker # rest) =
     watch_line ticker (get_stock_data (apis i) ticker) # watch_lines apis (Suc i) rest"

definition watchlist_command ::
  "(nat \<Rightarrow> string \<Rightarrow> provider_response) \<Rightarrow> int \<Rightarrow> database \<Rightarrow> reply" where
  "watchlist_command apis uid db =
     (let watchlist = get_watchlist uid db
      in if watchlist = [] then WatchlistEmpty
         else WatchlistText (watch_lines apis 0 watchlist))"

text \<open>The lines of the list a reply shows, one per ticker; a reply of another kind has none.\<close>

fun lines_of :: "reply \<Rightarrow> watch_line list" where
  "lines_of (WatchlistText ls) = ls"
| "lines_of r = []"

text \<open>\<open>process_ticker\<close>, the handler of a text in the state \<open>waiting_for_ticker\<close>.\<close>

definition process_ticker ::
  "(string \<Rightarrow> provider_response) \<Rightarrow> int \<Rightarrow> string \<Rightarrow> storage \<Rightarrow> reply list \<times> storage" where
  "process_ticker api uid text fsm =
     (let ticker = strip (upper text)
      in (send_stock_analysis api ticker, clear uid fsm))"

text \<open>
  \<open>process_calculator\<close>, the handler of a text in the state \<open>calculator_input\<close>. The
  text is whatever the user typed, and what \<open>strip\<close>, \<open>split\<close>, \<open>upper\<close>, \<open>int\<close>
  and \<open>float\<close> make of it is left to the argument \<open>py\<close>: a statement about every
  \<open>py\<close> holds for the builtins of Python on every text. \<open>plain\<close> is the \<open>py\<close> made
  of the functions above on the strings of the model.
\<close>

record builtins =
  str_strip :: "string \<Rightarrow> string"
  str_split :: "string \<Rightarrow> string list"
  str_upper :: "string \<Rightarrow> string"
  to_int :: "string \<Rightarrow> py_error + int"
  to_float :: "string \<Rightarrow> py_error + pyfloat"

definition plain :: builtins where
  "plain = \<lparr>str_strip = strip, str_split = py_split, str_upper = upper,
            to_int = int_of_str, to_float = float_of_str\<rparr>"

text \<open>
  The body of the \<open>try\<close> of \<open>process_calculator\<close> ends in an exception, or with the
  messages sent and the note whether it ended at the \<open>return\<close> statement (\<open>True\<close>) or at
  its last statement. Sending a message does not raise in the model.
\<close>

definition process_calculator_try ::
  "builtins \<Rightarrow> (string \<Rightarrow> provider_response) \<Rightarrow> string \<Rightarrow> py_error + (reply list \<times> bool)" where
  "process_calculator_try py api text =
     (let parts = str_split py (str_strip py text)
      in if length parts \<noteq> 3 then Inl ValueError
         else (case parts of
                 [ticker, shares_str, buy_price_str] \<Rightarrow>
                   seq (to_int py shares_str) (\<lambda>shares.
                   seq (to_float py buy_price_str) (\<lambda>buy_price.
                   (case get_stock_data api (str_upper py ticker) of
                      None \<Rightarrow> Inr ([CalcNotFound], True)
                    | Some stock_data \<Rightarrow>
                        (let current_price = q_price stock_data
                         in seq (int_mul_float shares buy_price) (\<lambda>total_invested.
                            seq (int_mul_float shares current_price) (\<lambda>current_value.
                            (let profit_loss = float_sub current_value total_invested
                             in seq (py_truediv profit_loss total_invested) (\<lambda>ratio.
                                seq (float_mul_int ratio 100) (\<lambda>profit_percent.
                                (let profit_emoji = change_emoji profit_loss
                                 in Inr ([CalcResult
                                           \<lparr>c_ticker = str_upper py ticker,
                                            c_current_price = current_price,
                                            c_shares = shares,
                                            c_buy_price = buy_price,
                                            c_total_invested = total_invested,
                                            c_current_value = current_value,
                                            c_profit_loss = profit_loss,
                                            c_profit_percent = profit_percent,
                                            c_profit_emoji = profit_emoji\<rparr>], False)))))))))))
               | _ \<Rightarrow> Inl ValueError))"

definition process_calculator ::
  "builtins \<Rightarrow> (string \<Rightarrow> provider_response) \<Rightarrow> int \<Rightarrow> string \<Rightarrow> storage
     \<Rightarrow> reply list \<times> storage" where
  "process_calculator py api uid text fsm =
     (case process_calculator_try py api text of
        Inl e \<Rightarrow> ([CalcFormatError], clear uid fsm)
      | Inr (sent, returned) \<Rightarrow> if returned then (sent, fsm) else (sent, clear uid fsm))"

section \<open>Providers and storages of the examples\<close>

text \<open>
  \<open>api_price p\<close> answers every request with a quote whose price field is the text \<open>p\<close>;
  \<open>api_absent\<close> answers with a body that has no \<open>Global Quote\<close>, as the provider does
  when the request limit is reached; \<open>api_only t p\<close> knows the one symbol \<open>t\<close>; with
  \<open>api_down\<close> the request fails, with \<open>api_garbled\<close> the body is not JSON.
\<close>

definition api_price :: "string \<Rightarrow> string \<Rightarrow> provider_response" where
  "api_price p ticker =
     Body (JObj [(''Global Quote'',
                  JObj [(''01. symbol'', JStr ticker), (''05. price'', JStr p)])])"

definition api_absent :: "string \<Rightarrow> provider_response" where
  "api_absent ticker = Body (JObj [(''Information'', JStr ''request limit reached'')])"

definition api_only :: "string \<Rightarrow> string \<Rightarrow> string \<Rightarrow> provider_response" where
  "api_only t p ticker = (if ticker = t then api_price p ticker else api_absent ticker)"

definition api_overview :: "string \<Rightarrow> string \<Rightarrow> provider_response" where
  "api_overview description ticker =
     Body (JObj [(''Symbol'', JStr ticker), (''Description'', JStr description)])"

definition api_down :: "string \<Rightarrow> provider_response" where
  "api_down ticker = TransportError"

definition api_garbled :: "string \<Rightarrow> provider_response" where
  "api_garbled ticker = MalformedJSON"

definition apis_only :: "string \<Rightarrow> string \<Rightarrow> nat \<Rightarrow> string \<Rightarrow> provider_response" where
  "apis_only t p i = api_only t p"

definition idle :: storage where
  "idle = (\<lambda>uid. None)"

section \<open>Properties of the user store\<close>

lemma save_user_Inr:
  "save_user now uid uname fname db =
     Inr (db\<lparr>users := filter (\<lambda>x. u_user_id x \<noteq> uid) (users db) @
            [\<lparr>u_user_id = uid, u_username = uname, u_first_name = fname, u_created_at = now\<rparr>]\<rparr>)"
proof (cases "uid \<in> set (map u_user_id (users db))")
  case True
  then show ?thesis by (simp add: save_user_def insert_users_def)
next
  case False
  then have "filter (\<lambda>x. u_user_id x \<noteq> uid) (users db) = users db"
    by (auto simp: filter_id_conv)
  with False show ?thesis by (simp add: save_user_def insert_users_def)
qed

lemma rows_of_saved:
  "filter (\<lambda>x. u_user_id x = uid)
     (filter (\<lambda>x. u_user_id x \<noteq> uid) t @
        [\<lparr>u_user_id = uid, u_username = uname, u_first_name = fname, u_created_at = now\<rparr>]) =
   [\<lparr>u_user_id = uid, u_username = uname, u_first_name = fname, u_created_at = now\<rparr>]"
  by (simp add: filter_empty_conv)

text \<open>
  C4. Two calls of \<open>save_user\<close> with the same id both succeed, and afterwards the table
  \<open>users\<close> holds exactly one row with that id, carrying the username and first name of
  the second call.
\<close>

theorem save_user_twice:
  "\<exists>db1 db2. save_user t1 uid uname1 fname1 db = Inr db1
      \<and> save_user t2 uid uname2 fname2 db1 = Inr db2
      \<and> filter (\<lambda>x. u_user_id x = uid) (users db2) =
          [\<lparr>u_user_id = uid, u_username = uname2, u_first_name = fname2, u_created_at = t2\<rparr>]"
  by (simp add: save_user_Inr rows_of_saved)

theorem save_user_twice_witness:
  "\<exists>db1 db2. save_user 5 42 ''ann'' ''Ann'' init_database = Inr db1
      \<and> save_user 9 42 ''ann_b'' ''Anna'' db1 = Inr db2
      \<and> users db2 =
          [\<lparr>u_user_id = 42, u_username = ''ann_b'', u_first_name = ''Anna'', u_created_at = 9\<rparr>]"
  using save_user_twice [of 5 42 "''ann''" "''Ann''" init_database 9 "''ann_b''" "''Anna''"]
  by (simp add: save_user_Inr init_database_def)

text \<open>
  C10. \<open>save_user\<close> for an id that is already stored does not keep the row's
  \<open>created_at\<close>: the one row left for that id carries the clock reading of this call,
  whatever the old row held.
\<close>

theorem save_user_resets_created_at:
  "r \<in> set (users db) \<Longrightarrow> u_user_id r = uid \<Longrightarrow>
   \<exists>db'. save_user now uid uname fname db = Inr db'
      \<and> map u_created_at (filter (\<lambda>x. u_user_id x = uid) (users db')) = [now]
      \<and> (u_created_at r \<noteq> now \<longrightarrow> r \<notin> set (users db'))"
proof -
  let ?new = "\<lparr>u_user_id = uid, u_username = uname, u_first_name = fname, u_created_at = now\<rparr>"
  assume uid: "u_user_id r = uid"
  have "u_created_at r \<noteq> now \<Longrightarrow> r \<noteq> ?new"
  proof
    assume "u_created_at r \<noteq> now" and "r = ?new"
    from this(2) have "u_created_at r = u_created_at ?new" by (rule arg_cong)
    with \<open>u_created_at r \<noteq> now\<close> show False by simp
  qed
  with uid show ?thesis
    by (auto simp: save_user_Inr rows_of_saved)
qed

theorem save_user_resets_created_at_witness:
  "\<exists>db'. save_user 9 42 ''ann'' ''Ann''
            (init_database\<lparr>users :=
               [\<lparr>u_user_id = 42, u_username = ''ann'', u_first_name = ''Ann'', u_created_at = 5\<rparr>]\<rparr>)
          = Inr db'
      \<and> map u_created_at (users db') = [9]"
  using save_user_resets_created_at
    [of "\<lparr>u_user_id = 42, u_username = ''ann'', u_first_name = ''Ann'', u_created_at = 5\<rparr>"
        "init_database\<lparr>users :=
           [\<lparr>u_user_id = 42, u_username = ''ann'', u_first_name = ''Ann'', u_created_at = 5\<rparr>]\<rparr>"
        42 9 "''ann''" "''Ann''"]
  by (simp add: save_user_Inr init_database_def)

lemma get_watchlist_add:
  "get_watchlist uid (add_to_watchlist now v ticker db) =
     get_watchlist uid db @ (if v = uid then [upper ticker] else [])"
  by (simp add: get_watchlist_def add_to_watchlist_def)

lemma get_watchlist_add_all:
  "get_watchlist uid (add_all cs db) = get_watchlist uid db @ tickers_of uid cs"
proof (induction cs arbitrary: db)
  case Nil
  show ?case by (simp add: tickers_of_def)
next
  case (Cons c cs)
  obtain now v ticker where c: "c = (now, v, ticker)" by (cases c) auto
  show ?case
    by (simp add: c Cons.IH get_watchlist_add) (simp add: tickers_of_def)
qed

text \<open>
  C5. After any sequence of \<open>add_to_watchlist\<close> calls, on any database,
  \<open>get_watchlist\<close> of a user is what it was before, followed by the upper-cased tickers
  of that user's calls in call order; one call for the user puts the upper-cased ticker at
  the end; on a new database the result is the empty list.
\<close>

theorem get_watchlist_insertion_order:
  "get_watchlist uid (add_all cs db) = get_watchlist uid db @ tickers_of uid cs
   \<and> get_watchlist uid (add_to_watchlist now uid ticker db) = get_watchlist uid db @ [upper ticker]
   \<and> get_watchlist uid init_database = []"
  by (simp add: get_watchlist_add_all get_watchlist_add) (simp add: get_watchlist_def init_database_def)

theorem get_watchlist_insertion_order_witness:
  "get_watchlist 7 (add_all [(1, 7, ''aapl''), (2, 8, ''ibm''), (3, 7, ''Tsla'')] init_database)
     = [''AAPL'', ''TSLA'']"
  using get_watchlist_insertion_order
    [of 7 "[(1, 7, ''aapl''), (2, 8, ''ibm''), (3, 7, ''Tsla'')]" init_database 0 "''x''"]
  by (simp add: tickers_of_def upper_def upper_char_def get_watchlist_def init_database_def)

section \<open>Properties of the button payload\<close>

lemma split_on_not_Nil: "split_on sep s \<noteq> []"
  by (induction s) (auto split: list.splits)

lemma hd_split_on: "hd (split_on sep s) = takeWhile (\<lambda>c. c \<noteq> sep) s"
  by (induction s) (auto split: list.splits simp: split_on_not_Nil)

lemma split_on_append:
  "sep \<notin> set a \<Longrightarrow> split_on sep (a @ sep # b) = a # split_on sep b"
  by (induction a) auto

lemma split_add_watchlist_data:
  "split_on CHR ''_'' (add_watchlist_data t) = ''add'' # ''watchlist'' # split_on CHR ''_'' t"
proof -
  have "add_watchlist_data t = ''add'' @ CHR ''_'' # (''watchlist'' @ CHR ''_'' # t)"
    by (simp add: add_watchlist_data_def)
  then show ?thesis
    by (simp only: split_on_append) (simp add: split_on_append)
qed

lemma callback_ticker_data:
  "callback_ticker (add_watchlist_data t) = Inr (takeWhile (\<lambda>c. c \<noteq> CHR ''_'') t)"
proof -
  obtain w ws where "split_on CHR ''_'' t = w # ws"
    using split_on_not_Nil [of "CHR ''_''" t] by (cases "split_on CHR ''_'' t") auto
  moreover from this have "w = takeWhile (\<lambda>c. c \<noteq> CHR ''_'') t"
    using hd_split_on [of "CHR ''_''" t] by simp
  ultimately show ?thesis
    by (simp add: callback_ticker_def py_index_def split_add_watchlist_data)
qed

text \<open>
  C9. The payload \<open>add_watchlist_<ticker>\<close>, split at the underscores, has as its third
  piece the ticker up to its first underscore: the ticker itself when it has no
  underscore, and a different string when it has one. \<open>add_watchlist_callback\<close> stores
  that piece.
\<close>

theorem watchlist_button_round_trip:
  "callback_ticker (add_watchlist_data t) = Inr (takeWhile (\<lambda>c. c \<noteq> CHR ''_'') t)
   \<and> (CHR ''_'' \<notin> set t \<longrightarrow> callback_ticker (add_watchlist_data t) = Inr t)
   \<and> (CHR ''_'' \<in> set t \<longrightarrow> callback_ticker (add_watchlist_data t) \<noteq> Inr t)
   \<and> add_watchlist_callback now uid (add_watchlist_data t) db =
       Inr (WatchlistAdded (takeWhile (\<lambda>c. c \<noteq> CHR ''_'') t),
            add_to_watchlist now uid (takeWhile (\<lambda>c. c \<noteq> CHR ''_'') t) db)"
proof -
  have "CHR ''_'' \<notin> set t \<Longrightarrow> takeWhile (\<lambda>c. c \<noteq> CHR ''_'') t = t"
    by (auto simp: takeWhile_eq_all_conv)
  moreover have "CHR ''_'' \<in> set t \<Longrightarrow> takeWhile (\<lambda>c. c \<noteq> CHR ''_'') t \<noteq> t"
    by (auto simp: takeWhile_eq_all_conv)
  ultimately show ?thesis
    by (simp add: callback_ticker_data add_watchlist_callback_def seq_def)
qed

theorem watchlist_button_round_trip_witness:
  "callback_ticker (add_watchlist_data ''AAPL'') = Inr ''AAPL''
   \<and> callback_ticker (add_watchlist_data ''BRK_B'') = Inr ''BRK''"
  using watchlist_button_round_trip [of "''AAPL''" 0 0 init_database]
    watchlist_button_round_trip [of "''BRK_B''" 0 0 init_database]
  by simp

section \<open>Properties of the quote client\<close>

lemma seq_Inr_iff: "seq m f = Inr y \<longleftrightarrow> (\<exists>x. m = Inr x \<and> f x = Inr y)"
  by (cases m) (auto simp: seq_def)

lemma py_get_Inr: "py_get j k dflt = Inr v \<Longrightarrow> \<exists>d. j = JObj d"
  by (cases j) auto

lemma py_get_missing: "map_of d k = None \<Longrightarrow> py_get (JObj d) k dflt = Inr dflt"
  by simp

lemma quote_of_Inr:
  assumes "quote_of j = Inr q"
  shows "\<exists>g. j = JObj g
     \<and> py_get j ''01. symbol'' (JStr []) = Inr (q_symbol q)
     \<and> seq (py_get j ''05. price'' (JInt 0)) py_float = Inr (q_price q)
     \<and> seq (py_get j ''09. change'' (JInt 0)) py_float = Inr (q_change q)
     \<and> py_get j ''10. change percent'' (JStr ''0%'') = Inr (q_change_percent q)
     \<and> seq (py_get j ''06. volume'' (JInt 0)) py_int = Inr (q_volume q)
     \<and> seq (py_get j ''03. high'' (JInt 0)) py_float = Inr (q_high q)
     \<and> seq (py_get j ''04. low'' (JInt 0)) py_float = Inr (q_low q)
     \<and> seq (py_get j ''02. open'' (JInt 0)) py_float = Inr (q_open q)
     \<and> seq (py_get j ''08. previous close'' (JInt 0)) py_float = Inr (q_previous_close q)"
proof -
  from assms obtain symbol price change change_percent volume high low opn previous_close where
    s: "py_get j ''01. symbol'' (JStr []) = Inr symbol"
    and p: "seq (py_get j ''05. price'' (JInt 0)) py_float = Inr price"
    and c: "seq (py_get j ''09. change'' (JInt 0)) py_float = Inr change"
    and cp: "py_get j ''10. change percent'' (JStr ''0%'') = Inr change_percent"
    and v: "seq (py_get j ''06. volume'' (JInt 0)) py_int = Inr volume"
    and h: "seq (py_get j ''03. high'' (JInt 0)) py_float = Inr high"
    and l: "seq (py_get j ''04. low'' (JInt 0)) py_float = Inr low"
    and opn: "seq (py_get j ''02. open'' (JInt 0)) py_float = Inr opn"
    and pc: "seq (py_get j ''08. previous close'' (JInt 0)) py_float = Inr previous_close"
    and q: "q = \<lparr>q_symbol = symbol, q_price = price, q_change = change,
          q_change_percent = change_percent, q_volume = volume, q_high = high,
          q_low = low, q_open = opn, q_previous_close = previous_close\<rparr>"
    unfolding quote_of_def seq_Inr_iff by blast
  from s obtain g where "j = JObj g" by (blast dest: py_get_Inr)
  with s p c cp v h l opn pc q show ?thesis by simp
qed

lemma get_stock_data_try_Some:
  assumes "get_stock_data_try resp = Inr (Some q)"
  shows "\<exists>d g. resp = Body (JObj d) \<and> map_of d ''Global Quote'' = Some (JObj g)
            \<and> quote_of (JObj g) = Inr q"
proof (cases resp)
  case TransportError
  with assms show ?thesis by (simp add: get_stock_data_try_def)
next
  case MalformedJSON
  with assms show ?thesis by (simp add: get_stock_data_try_def)
next
  case (Body data)
  with assms obtain found where f: "py_in ''Global Quote'' data = Inr found"
    and r: "(if found then seq (py_getitem data ''Global Quote'') (\<lambda>quote.
               seq (quote_of quote) (\<lambda>q. Inr (Some q))) else Inr None) = Inr (Some q)"
    by (auto simp: get_stock_data_try_def seq_Inr_iff)
  from r have found by (auto split: if_splits)
  with r obtain quote where gi: "py_getitem data ''Global Quote'' = Inr quote"
    and qo: "quote_of quote = Inr q"
    by (auto simp: seq_Inr_iff)
  from gi obtain d where d: "data = JObj d" by (cases data) auto
  with gi have m: "map_of d ''Global Quote'' = Some quote" by (auto split: option.splits)
  from qo obtain g where "quote = JObj g" by (blast dest: quote_of_Inr)
  with Body d m qo show ?thesis by simp
qed

lemma float_of_int_0: "float_of_int 0 = Inr (Fin 0)"
  by (simp add: float_of_int_def rnd_def nearest_def pow2_def round_half_even_def)

lemma get_stock_data_Some:
  "get_stock_data api ticker = Some q \<Longrightarrow> get_stock_data_try (api ticker) = Inr (Some q)"
  by (auto simp: get_stock_data_def split: sum.splits)

text \<open>
  C3. \<open>get_stock_data\<close> returns \<open>None\<close> or a record, whatever the provider answers:
  \<open>None\<close> when the transport fails, when the body is not JSON, when the body has no
  \<open>Global Quote\<close>, and for every exception of the body of its \<open>try\<close>. A record it
  returns comes from an object under \<open>Global Quote\<close>, and each field whose source
  field is missing there holds its default: the empty string for the symbol, \<open>0%\<close> for
  the change percent, \<open>0\<close> for each number.
\<close>

theorem get_stock_data_total:
  "(api ticker = TransportError \<longrightarrow> get_stock_data api ticker = None)
   \<and> (api ticker = MalformedJSON \<longrightarrow> get_stock_data api ticker = None)
   \<and> (\<forall>d. api ticker = Body (JObj d) \<longrightarrow> map_of d ''Global Quote'' = None \<longrightarrow>
          get_stock_data api ticker = None)
   \<and> (\<forall>e. get_stock_data_try (api ticker) = Inl e \<longrightarrow> get_stock_data api ticker = None)
   \<and> (\<forall>q. get_stock_data api ticker = Some q \<longrightarrow>
        (\<exists>d g. api ticker = Body (JObj d) \<and> map_of d ''Global Quote'' = Some (JObj g)
           \<and> (map_of g ''01. symbol'' = None \<longrightarrow> q_symbol q = JStr [])
           \<and> (map_of g ''05. price'' = None \<longrightarrow> q_price q = Fin 0)
           \<and> (map_of g ''09. change'' = None \<longrightarrow> q_change q = Fin 0)
           \<and> (map_of g ''10. change percent'' = None \<longrightarrow> q_change_percent q = JStr ''0%'')
           \<and> (map_of g ''06. volume'' = None \<longrightarrow> q_volume q = 0)
           \<and> (map_of g ''03. high'' = None \<longrightarrow> q_high q = Fin 0)
           \<and> (map_of g ''04. low'' = None \<longrightarrow> q_low q = Fin 0)
           \<and> (map_of g ''02. open'' = None \<longrightarrow> q_open q = Fin 0)
           \<and> (map_of g ''08. previous close'' = None \<longrightarrow> q_previous_close q = Fin 0)))"
proof -
  have a: "api ticker = TransportError \<Longrightarrow> get_stock_data api ticker = None"
    by (simp add: get_stock_data_def get_stock_data_try_def)
  have b: "api ticker = MalformedJSON \<Longrightarrow> get_stock_data api ticker = None"
    by (simp add: get_stock_data_def get_stock_data_try_def)
  have c: "api ticker = Body (JObj d) \<Longrightarrow> map_of d ''Global Quote'' = None \<Longrightarrow>
          get_stock_data api ticker = None" for d
    by (simp add: get_stock_data_def get_stock_data_try_def seq_def)
  have e: "get_stock_data_try (api ticker) = Inl e \<Longrightarrow> get_stock_data api ticker = None" for e
    by (simp add: get_stock_data_def)
  have f: "\<exists>d g. api ticker = Body (JObj d) \<and> map_of d ''Global Quote'' = Some (JObj g)
           \<and> (map_of g ''01. symbol'' = None \<longrightarrow> q_symbol q = JStr [])
           \<and> (map_of g ''05. price'' = None \<longrightarrow> q_price q = Fin 0)
           \<and> (map_of g ''09. change'' = None \<longrightarrow> q_change q = Fin 0)
           \<and> (map_of g ''10. change percent'' = None \<longrightarrow> q_change_percent q = JStr ''0%'')
           \<and> (map_of g ''06. volume'' = None \<longrightarrow> q_volume q = 0)
           \<and> (map_of g ''03. high'' = None \<longrightarrow> q_high q = Fin 0)
           \<and> (map_of g ''04. low'' = None \<longrightarrow> q_low q = Fin 0)
           \<and> (map_of g ''02. open'' = None \<longrightarrow> q_open q = Fin 0)
           \<and> (map_of g ''08. previous close'' = None \<longrightarrow> q_previous_close q = Fin 0)"
    if "get_stock_data api ticker = Some q" for q
  proof -
    from that obtain d g where r: "api ticker = Body (JObj d)"
      and m: "map_of d ''Global Quote'' = Some (JObj g)" and qo: "quote_of (JObj g) = Inr q"
      by (blast dest: get_stock_data_Some get_stock_data_try_Some)
    from quote_of_Inr [OF qo] have
      "(map_of g ''01. symbol'' = None \<longrightarrow> q_symbol q = JStr [])"
      "(map_of g ''05. price'' = None \<longrightarrow> q_price q = Fin 0)"
      "(map_of g ''09. change'' = None \<longrightarrow> q_change q = Fin 0)"
      "(map_of g ''10. change percent'' = None \<longrightarrow> q_change_percent q = JStr ''0%'')"
      "(map_of g ''06. volume'' = None \<longrightarrow> q_volume q = 0)"
      "(map_of g ''03. high'' = None \<longrightarrow> q_high q = Fin 0)"
      "(map_of g ''04. low'' = None \<longrightarrow> q_low q = Fin 0)"
      "(map_of g ''02. open'' = None \<longrightarrow> q_open q = Fin 0)"
      "(map_of g ''08. previous close'' = None \<longrightarrow> q_previous_close q = Fin 0)"
      by (auto simp: seq_def float_of_int_0)
    with r m show ?thesis
      by (intro exI [of _ d] exI [of _ g]) simp
  qed
  from a b c e f show ?thesis by blast
qed

lemmas float_defs =
  rnd_def nearest_def pow2_def pow10_def exponent_def round_half_even_def bit_length.simps
  float_of_int_def float_mul_def float_sub_def float_div_def py_truediv_def float_pos_def
  int_mul_float_def float_mul_int_def is_zero_def is_inf_def signed_zero_def signed_inf_def

lemmas text_defs =
  float_of_str_def int_of_str_def decimal_def exponent_part_def unsign_def num_strip_def
  is_num_space_def is_digit_def digit_val_def strip_def is_space_def py_split_def
  upper_def upper_char_def

lemmas eval_defs =
  get_stock_data_def get_stock_data_try_def quote_of_def seq_def float_of_int_0 Let_def
  api_price_def api_absent_def api_only_def api_down_def api_garbled_def

theorem get_stock_data_total_witness:
  "get_stock_data (api_price ''160.00'') ''AAPL'' =
     Some \<lparr>q_symbol = JStr ''AAPL'', q_price = Fin 160, q_change = Fin 0,
           q_change_percent = JStr ''0%'', q_volume = 0, q_high = Fin 0, q_low = Fin 0,
           q_open = Fin 0, q_previous_close = Fin 0\<rparr>
   \<and> get_stock_data api_absent ''AAPL'' = None
   \<and> get_stock_data api_down ''AAPL'' = None
   \<and> get_stock_data api_garbled ''AAPL'' = None
   \<and> get_stock_data (api_price ''n/a'') ''AAPL'' = None"
  using get_stock_data_total [of "api_price ''160.00''" "''AAPL''"]
    get_stock_data_total [of api_absent "''AAPL''"]
    get_stock_data_total [of api_down "''AAPL''"]
    get_stock_data_total [of api_garbled "''AAPL''"]
    get_stock_data_total [of "api_price ''n/a''" "''AAPL''"]
  by (simp add: eval_defs text_defs float_defs)

section \<open>Properties of the watch-list render\<close>

lemma watch_lines_enumerate:
  "watch_lines apis i ws =
     map (\<lambda>p. watch_line (snd p) (get_stock_data (apis (fst p)) (snd p))) (enumerate i ws)"
  by (induction ws arbitrary: i) simp_all

lemma lines_of_watchlist_command:
  "lines_of (watchlist_command apis uid db) =
     map (\<lambda>p. watch_line (snd p) (get_stock_data (apis (fst p)) (snd p)))
       (enumerate 0 (get_watchlist uid db))"
  by (simp add: watchlist_command_def Let_def watch_lines_enumerate)

text \<open>
  C6. The watch-list render has exactly one line per stored ticker, in stored order: the
  \<open>i\<close>-th line is the line with price and percent change when the \<open>i\<close>-th request
  returns a quote, and the line marked unavailable when it returns \<open>None\<close>. A list that
  is not empty is always answered with the listing, whatever the requests return.
\<close>

theorem watchlist_one_line_per_ticker:
  "length (lines_of (watchlist_command apis uid db)) = length (get_watchlist uid db)
   \<and> (get_watchlist uid db \<noteq> [] \<longrightarrow>
        watchlist_command apis uid db = WatchlistText (lines_of (watchlist_command apis uid db)))
   \<and> (\<forall>i < length (get_watchlist uid db).
        (get_stock_data (apis i) (get_watchlist uid db ! i) = None \<longrightarrow>
           lines_of (watchlist_command apis uid db) ! i = Unavailable (get_watchlist uid db ! i))
        \<and> (\<forall>sd. get_stock_data (apis i) (get_watchlist uid db ! i) = Some sd \<longrightarrow>
           lines_of (watchlist_command apis uid db) ! i =
             Priced (change_emoji (q_change sd)) (get_watchlist uid db ! i) (q_price sd)
               (q_change_percent sd)))"
proof -
  have "lines_of (watchlist_command apis uid db) ! i =
          watch_line (get_watchlist uid db ! i)
            (get_stock_data (apis i) (get_watchlist uid db ! i))"
    if "i < length (get_watchlist uid db)" for i
    using that by (simp add: lines_of_watchlist_command nth_enumerate_eq)
  moreover have "get_watchlist uid db \<noteq> [] \<Longrightarrow>
        watchlist_command apis uid db = WatchlistText (lines_of (watchlist_command apis uid db))"
    by (simp add: watchlist_command_def Let_def)
  ultimately show ?thesis
    by (simp add: lines_of_watchlist_command watch_line_def)
qed

lemmas store_defs =
  add_to_watchlist_def get_watchlist_def init_database_def upper_def upper_char_def

theorem watchlist_one_line_per_ticker_witness:
  "watchlist_command (apis_only ''AAPL'' ''160.00'') 7
     (add_all [(1, 7, ''aapl''), (2, 7, ''zzzzinvalid'')] init_database) =
   WatchlistText [Priced ChartDown ''AAPL'' (Fin 160) (JStr ''0%''), Unavailable ''ZZZZINVALID'']"
  using watchlist_one_line_per_ticker [of "apis_only ''AAPL'' ''160.00''" 7
     "add_all [(1, 7, ''aapl''), (2, 7, ''zzzzinvalid'')] init_database"]
  by (simp add: watchlist_command_def watch_line_def change_emoji_def apis_only_def
      store_defs eval_defs text_defs float_defs)

section \<open>Properties of the company overview\<close>

lemma overview_text_of_description:
  assumes "map_of d ''Description'' = Some (JStr description)"
  shows "\<exists>t. overview_text_of (JObj d) ticker = Inr t
            \<and> o_description t = [Shown (JStr (take 500 description)), Literal ''...'']"
  using assms by (simp add: overview_text_of_def seq_def)

text \<open>
  C7. When the overview holds a \<open>Description\<close> string of more than 500 characters, the
  description of the rendered overview is the first 500 characters of it, followed by the
  marker \<open>...\<close>.
\<close>

theorem overview_description_truncated:
  assumes "api ticker = Body (JObj d)"
    and "map_of d ''Symbol'' \<noteq> None"
    and "map_of d ''Description'' = Some (JStr description)"
    and "length description > 500"
  shows "\<exists>t. send_company_overview api ticker = ([OverviewLoading, Overview t], None)
            \<and> o_description t = [Shown (JStr (take 500 description)), Literal ''...'']
            \<and> length (take 500 description) = 500"
proof -
  from assms(1,2) have "get_company_overview api ticker = Some (JObj d)"
    by (simp add: get_company_overview_def get_company_overview_try_def seq_def)
  moreover from overview_text_of_description [OF assms(3)] obtain t where
    "overview_text_of (JObj d) ticker = Inr t"
    "o_description t = [Shown (JStr (take 500 description)), Literal ''...'']"
    by blast
  ultimately show ?thesis
    using assms(4) by (simp add: send_company_overview_def)
qed

theorem overview_description_truncated_witness:
  "\<exists>t. send_company_overview (api_overview (replicate 501 CHR ''a'')) ''IBM'' =
          ([OverviewLoading, Overview t], None)
     \<and> o_description t = [Shown (JStr (replicate 500 CHR ''a'')), Literal ''...'']"
  using overview_description_truncated [of "api_overview (replicate 501 CHR ''a'')" "''IBM''"
      "[(''Symbol'', JStr ''IBM''), (''Description'', JStr (replicate 501 CHR ''a''))]"
      "replicate 501 CHR ''a''"]
  by (simp add: api_overview_def)

section \<open>Properties of the conversation controller\<close>

lemma float_of_int_100: "float_of_int 100 = Inr (Fin 100)"
  by (simp add: float_defs)

lemma process_calculator_try_parsed:
  assumes "str_split py (str_strip py text) = [ticker, shares_str, buy_price_str]"
    and "to_int py shares_str = Inr shares"
    and "to_float py buy_price_str = Inr buy_price"
  shows "process_calculator_try py api text =
     (case get_stock_data api (str_upper py ticker) of
        None \<Rightarrow> Inr ([CalcNotFound], True)
      | Some sd \<Rightarrow>
          (case float_of_int shares of
             Inl e \<Rightarrow> Inl e
           | Inr s \<Rightarrow>
               if is_zero (float_mul s buy_price) then Inl ZeroDivisionError
               else Inr ([CalcResult
                  \<lparr>c_ticker = str_upper py ticker,
                   c_current_price = q_price sd,
                   c_shares = shares,
                   c_buy_price = buy_price,
                   c_total_invested = float_mul s buy_price,
                   c_current_value = float_mul s (q_price sd),
                   c_profit_loss =
                     float_sub (float_mul s (q_price sd)) (float_mul s buy_price),
                   c_profit_percent =
                     float_mul
                       (float_div (float_sub (float_mul s (q_price sd)) (float_mul s buy_price))
                          (float_mul s buy_price))
                       (Fin 100),
                   c_profit_emoji =
                     change_emoji
                       (float_sub (float_mul s (q_price sd)) (float_mul s buy_price))\<rparr>],
                False)))"
  using assms
  by (simp add: process_calculator_try_def seq_def int_mul_float_def float_mul_int_def
      py_truediv_def float_of_int_100 Let_def split: option.splits sum.splits)

lemma process_ticker_clears: "snd (process_ticker api uid text fsm) uid = None"
  by (simp add: process_ticker_def clear_def Let_def)

lemma process_calculator_state:
  "snd (process_calculator py api uid text fsm) =
     (if \<exists>sent. process_calculator_try py api text = Inr (sent, True) then fsm
      else clear uid fsm)"
  by (auto simp: process_calculator_def split: sum.splits)

text \<open>
  C8. For a parsed input and a fetched quote the handler computes, in the arithmetic of
  floats, \<open>total_invested = shares * buy_price\<close>,
  \<open>current_value = shares * current_price\<close>,
  \<open>profit_loss = current_value - total_invested\<close> and
  \<open>profit_percent = profit_loss / total_invested * 100\<close>, and picks the sign by
  \<open>profit_loss > 0\<close>. When \<open>shares\<close> is too large for a float, or \<open>total_invested\<close>
  is a zero, an exception is raised instead and the reply is the format error.
\<close>

theorem calculator_quantities:
  assumes "str_split py (str_strip py text) = [ticker, shares_str, buy_price_str]"
    and "to_int py shares_str = Inr shares"
    and "to_float py buy_price_str = Inr buy_price"
    and "get_stock_data api (str_upper py ticker) = Some sd"
  shows "fst (process_calculator py api uid text fsm) =
     (case float_of_int shares of
        Inl e \<Rightarrow> [CalcFormatError]
      | Inr s \<Rightarrow>
          (let current_price = q_price sd;
               total_invested = float_mul s buy_price;
               current_value = float_mul s current_price;
               profit_loss = float_sub current_value total_invested;
               profit_percent = float_mul (float_div profit_loss total_invested) (Fin 100)
           in if is_zero total_invested then [CalcFormatError]
              else [CalcResult
                     \<lparr>c_ticker = str_upper py ticker, c_current_price = current_price,
                      c_shares = shares, c_buy_price = buy_price,
                      c_total_invested = total_invested, c_current_value = current_value,
                      c_profit_loss = profit_loss, c_profit_percent = profit_percent,
                      c_profit_emoji =
                        (if float_pos profit_loss then ChartUp else ChartDown)\<rparr>]))"
  using assms(4)
  by (simp add: process_calculator_def process_calculator_try_parsed [OF assms(1-3)]
      change_emoji_def Let_def split: sum.splits)

lemmas calc_defs =
  process_calculator_def process_calculator_try_def plain_def change_emoji_def

theorem calculator_quantities_witness:
  "fst (process_calculator plain (api_price ''160.00'') 42 ''AAPL 10 150.50'' idle) =
     [CalcResult
       \<lparr>c_ticker = ''AAPL'', c_current_price = Fin 160, c_shares = 10,
        c_buy_price = Fin 150.5, c_total_invested = Fin 1505, c_current_value = Fin 1600,
        c_profit_loss = Fin 95,
        c_profit_percent = Fin (444188086171301 / 70368744177664),
        c_profit_emoji = ChartUp\<rparr>]
   \<and> \<bar>444188086171301 / 70368744177664 - 6.31\<bar> < (0.005 :: real)"
  using calculator_quantities [of plain "''AAPL 10 150.50''" "''AAPL''" "''10''" "''150.50''"
      10 "Fin 150.5" "api_price ''160.00''"
      "\<lparr>q_symbol = JStr ''AAPL'', q_price = Fin 160, q_change = Fin 0,
           q_change_percent = JStr ''0%'', q_volume = 0, q_high = Fin 0, q_low = Fin 0,
           q_open = Fin 0, q_previous_close = Fin 0\<rparr>" 42 idle]
  by (simp add: plain_def eval_defs text_defs float_defs)

text \<open>
  C2 as the claim states it fails: for the input \<open>AAPL 10 0\<close> and a provider that returns
  no quote, the reply is the message that no data was found, not the format error.
\<close>

theorem zero_invested_absent_quote:
  "fst (process_calculator plain api_absent 42 ''AAPL 10 0'' idle) = [CalcNotFound]
   \<and> fst (process_calculator plain api_absent 42 ''AAPL 10 0'' idle) \<noteq> [CalcFormatError]"
  by (simp add: calc_defs eval_defs text_defs float_defs)

text \<open>
  C2, amended. For an input whose three pieces parse and whose invested amount
  \<open>shares * buy_price\<close> is a zero, the handler replies with the format error when the
  request returns a quote, and with the message that no data was found when it returns
  \<open>None\<close>; the division by zero is caught in the handler.
\<close>

theorem zero_invested_reply:
  assumes "str_split py (str_strip py text) = [ticker, shares_str, buy_price_str]"
    and "to_int py shares_str = Inr shares"
    and "to_float py buy_price_str = Inr buy_price"
    and "int_mul_float shares buy_price = Inr total_invested"
    and "is_zero total_invested"
  shows "fst (process_calculator py api uid text fsm) =
     (case get_stock_data api (str_upper py ticker) of
        Some sd \<Rightarrow> [CalcFormatError]
      | None \<Rightarrow> [CalcNotFound])"
proof -
  from assms(4) obtain s where "float_of_int shares = Inr s"
    and "total_invested = float_mul s buy_price"
    by (auto simp: int_mul_float_def seq_def split: sum.splits)
  with assms(5) show ?thesis
    by (simp add: process_calculator_def process_calculator_try_parsed [OF assms(1-3)]
        split: option.splits)
qed

theorem zero_invested_reply_witness:
  "fst (process_calculator plain (api_price ''160.00'') 42 ''AAPL 10 0'' idle) = [CalcFormatError]
   \<and> fst (process_calculator plain (api_price ''160.00'') 42 ''AAPL 0 150.50'' idle)
       = [CalcFormatError]
   \<and> fst (process_calculator plain (api_price ''160.00'') 42 ''AAPL 10 -0e0'' idle)
       = [CalcFormatError]"
  using zero_invested_reply [of plain "''AAPL 10 0''" "''AAPL''" "''10''" "''0''" 10 "Fin 0"
      "Fin 0" "api_price ''160.00''" 42 idle]
    zero_invested_reply [of plain "''AAPL 0 150.50''" "''AAPL''" "''0''" "''150.50''" 0
      "Fin 150.5" "Fin 0" "api_price ''160.00''" 42 idle]
    zero_invested_reply [of plain "''AAPL 10 -0e0''" "''AAPL''" "''10''" "''-0e0''" 10 NegZero
      NegZero "api_price ''160.00''" 42 idle]
  by (simp add: plain_def eval_defs text_defs float_defs)

text \<open>
  C1 fails on the code: in the state \<open>calculator_input\<close>, for the text
  \<open>AAPL 10 150.50\<close> and a provider that returns no quote, \<open>process_calculator\<close> leaves
  at the \<open>return\<close> inside the \<open>try\<close> and the user is still in \<open>calculator_input\<close>
  afterwards. \<open>process_ticker\<close> always clears the state, and \<open>process_calculator\<close>
  clears it on every other path.
\<close>

theorem process_calculator_keeps_state:
  "snd (process_calculator plain api_absent 42 ''AAPL 10 150.50''
          (set_state 42 calculator_input idle)) 42
     = Some calculator_input"
  by (simp add: calc_defs set_state_def eval_defs text_defs float_defs)

end
